theory Spec2Isabelle
  imports Main "HOL-Library.Word"
begin

section \<open>JavaScript values\<close>

text \<open>
  The values that cross the client's interface: request arguments, response bodies,
  order amounts and prices. A string is its list of code units (the embedding covers
  the code units U+0000 to U+00FF, one \<open>char\<close> each). The module never calculates
  with a number it is given: it converts it to a string, writes it as JSON or tests
  its truth value. \<open>JNum\<close> therefore holds a number by the string that
  \<open>Number.prototype.toString\<close> gives for it (\<open>''0.5''\<close>, \<open>''650''\<close>, \<open>''1e+21''\<close>,
  \<open>''NaN''\<close>, \<open>''-Infinity''\<close>; both zeros are \<open>''0''\<close>), which covers every number,
  fractions and large magnitudes included. An object is its list of own properties
  in insertion order, with distinct keys that are not array indices.
\<close>

datatype jsvalue =
    JUndefined
  | JNull
  | JBool bool
  | JNum string
  | JStr string
  | JArr "jsvalue list"
  | JObj "(string \<times> jsvalue) list"

type_synonym byte = "8 word"

datatype js_exception = TypeError

text \<open>Truthiness, as \<open>!x\<close>, \<open>if (x)\<close> and \<open>x || y\<close> test it.\<close>

fun truthy :: "jsvalue \<Rightarrow> bool" where
  "truthy JUndefined = False"
| "truthy JNull = False"
| "truthy (JBool b) = b"
| "truthy (JNum n) = (n \<noteq> ''0'' \<and> n \<noteq> ''NaN'')"
| "truthy (JStr s) = (s \<noteq> [])"
| "truthy (JArr xs) = True"
| "truthy (JObj kvs) = True"

text \<open>Property read \<open>v.k\<close> on a value that is neither \<open>null\<close> nor \<open>undefined\<close>.\<close>

fun get_prop :: "jsvalue \<Rightarrow> string \<Rightarrow> jsvalue" where
  "get_prop (JObj kvs) k = (case map_of kvs k of Some v \<Rightarrow> v | None \<Rightarrow> JUndefined)"
| "get_prop v k = JUndefined"

text \<open>Property write \<open>o.k = v\<close> on an object: replaces in place or appends.\<close>

fun set_prop :: "jsvalue \<Rightarrow> string \<Rightarrow> jsvalue \<Rightarrow> jsvalue" where
  "set_prop (JObj kvs) k v =
     (if k \<in> fst ` set kvs then JObj (map (\<lambda>(k', v'). if k' = k then (k', v) else (k', v')) kvs)
      else JObj (kvs @ [(k, v)]))"
| "set_prop w k v = w"

text \<open>underscore: \<open>_.isObject\<close> and \<open>_.isEmpty\<close>.\<close>

fun isObject :: "jsvalue \<Rightarrow> bool" where
  "isObject (JArr xs) = True"
| "isObject (JObj kvs) = True"
| "isObject v = False"

fun isEmpty :: "jsvalue \<Rightarrow> bool" where
  "isEmpty (JArr xs) = (xs = [])"
| "isEmpty (JStr s) = (s = [])"
| "isEmpty (JObj kvs) = (kvs = [])"
| "isEmpty v = True"

subsection \<open>Numbers and strings\<close>

fun digits :: "nat \<Rightarrow> string" where
  "digits n =
     (if n < 10 then [''0123456789'' ! n]
      else digits (n div 10) @ [''0123456789'' ! (n mod 10)])"

declare digits.simps [simp del]

text \<open>
  The numbers the module itself produces are the clock readings (milliseconds, of
  magnitude at most \<open>8.64 * 10 ^ 15\<close>) and the counter, which starts at a clock reading
  and is counted up by one for each request. They are integers in the range below
  \<open>2 ^ 53\<close> in which a double counts exactly, and \<open>Number.prototype.toString\<close> prints
  such an integer digit by digit. \<open>number_toString\<close> is applied to these values only;
  a number the module is given is a \<open>JNum\<close> and carries its own string.
\<close>

definition number_toString :: "int \<Rightarrow> string" where
  "number_toString n = (if n < 0 then CHR ''-'' # digits (nat (- n)) else digits (nat n))"

text \<open>\<open>Array.prototype.join\<close> on an array of strings.\<close>

fun join :: "string \<Rightarrow> string list \<Rightarrow> string" where
  "join sep [] = []"
| "join sep [x] = x"
| "join sep (x # y # ys) = x @ sep @ join sep (y # ys)"

text \<open>
  The abstract operation ToString (as \<open>String(v)\<close>, template literals and \<open>+\<close> with a
  string apply it). An array joins its elements with commas, \<open>null\<close> and \<open>undefined\<close>
  elements giving the empty string.
\<close>

fun ToString :: "jsvalue \<Rightarrow> string"
  and ToString_elems :: "jsvalue list \<Rightarrow> string list" where
  "ToString JUndefined = ''undefined''"
| "ToString JNull = ''null''"
| "ToString (JBool b) = (if b then ''true'' else ''false'')"
| "ToString (JNum n) = n"
| "ToString (JStr s) = s"
| "ToString (JArr xs) = join '','' (ToString_elems xs)"
| "ToString (JObj kvs) = ''[object Object]''"
| "ToString_elems [] = []"
| "ToString_elems (x # xs) =
     (if x = JUndefined \<or> x = JNull then [] else ToString x) # ToString_elems xs"

text \<open>
  The method call \<open>v.toString()\<close>: reading a property of \<open>null\<close> or \<open>undefined\<close>
  throws a TypeError. Every other value inherits the method of its prototype (an
  object is taken to have no own property of that name).
\<close>

definition toString :: "jsvalue \<Rightarrow> js_exception + string" where
  "toString v = (if v = JNull \<or> v = JUndefined then Inl TypeError else Inr (ToString v))"

subsection \<open>JSON.stringify\<close>

definition hex_digit :: "nat \<Rightarrow> char" where
  "hex_digit n = ''0123456789abcdef'' ! (n mod 16)"

text \<open>QuoteJSONString, one code unit at a time.\<close>

definition quote_unit :: "char \<Rightarrow> string" where
  "quote_unit c =
     (let n = (of_char c :: nat) in
      if n = 8 then [CHR 0x5C, CHR ''b'']
      else if n = 9 then [CHR 0x5C, CHR ''t'']
      else if n = 10 then [CHR 0x5C, CHR ''n'']
      else if n = 12 then [CHR 0x5C, CHR ''f'']
      else if n = 13 then [CHR 0x5C, CHR ''r'']
      else if n = 34 then [CHR 0x5C, CHR 0x22]
      else if n = 92 then [CHR 0x5C, CHR 0x5C]
      else if n < 32 then
        [CHR 0x5C, CHR ''u'', CHR ''0'', CHR ''0'', hex_digit (n div 16), hex_digit (n mod 16)]
      else [c])"

definition json_quote :: "string \<Rightarrow> string" where
  "json_quote s = CHR 0x22 # concat (map quote_unit s) @ [CHR 0x22]"

text \<open>
  \<open>JSON.stringify(v)\<close> with no replacer and no indentation: \<open>None\<close> is the result
  \<open>undefined\<close>. A finite number is written as \<open>toString\<close> prints it, any other
  number as \<open>null\<close>. In an array an \<open>undefined\<close> element is written \<open>null\<close>; in
  an object a property whose value is \<open>undefined\<close> is left out.
\<close>

fun JSON_stringify :: "jsvalue \<Rightarrow> string option"
  and stringify_elems :: "jsvalue list \<Rightarrow> string list"
  and stringify_props :: "(string \<times> jsvalue) list \<Rightarrow> string list" where
  "JSON_stringify JUndefined = None"
| "JSON_stringify JNull = Some ''null''"
| "JSON_stringify (JBool b) = Some (if b then ''true'' else ''false'')"
| "JSON_stringify (JNum n) =
     Some (if n = ''NaN'' \<or> n = ''Infinity'' \<or> n = ''-Infinity'' then ''null'' else n)"
| "JSON_stringify (JStr s) = Some (json_quote s)"
| "JSON_stringify (JArr xs) = Some (''['' @ join '','' (stringify_elems xs) @ '']'')"
| "JSON_stringify (JObj kvs) = Some (''{'' @ join '','' (stringify_props kvs) @ ''}'')"
| "stringify_elems [] = []"
| "stringify_elems (x # xs) =
     (case JSON_stringify x of None \<Rightarrow> ''null'' | Some s \<Rightarrow> s) # stringify_elems xs"
| "stringify_props [] = []"
| "stringify_props ((k, v) # kvs) =
     (case JSON_stringify v of
        None \<Rightarrow> stringify_props kvs
      | Some s \<Rightarrow> (json_quote k @ '':'' @ s) # stringify_props kvs)"

text \<open>A value where a string or \<open>undefined\<close> is expected.\<close>

definition of_result :: "string option \<Rightarrow> jsvalue" where
  "of_result r = (case r of None \<Rightarrow> JUndefined | Some s \<Rightarrow> JStr s)"

text \<open>UTF-8, as \<open>Buffer.from(s)\<close> and \<open>hash.update(s)\<close> encode a string.\<close>

definition utf8_unit :: "char \<Rightarrow> byte list" where
  "utf8_unit c =
     (let n = (of_char c :: nat) in
      if n < 128 then [of_nat n] else [of_nat (192 + n div 64), of_nat (128 + n mod 64)])"

definition utf8 :: "string \<Rightarrow> byte list" where
  "utf8 s = concat (map utf8_unit s)"

section \<open>The client\<close>

subsection \<open>Libraries and the network\<close>

text \<open>
  The functions the module takes from its libraries and does not define: the hash, the
  keyed hash and the base64 encoding of \<open>crypto\<close>, \<open>querystring.stringify\<close>, and
  the text of the \<open>body\<close> element of a document loaded by \<open>cheerio\<close>. They are
  parameters of the embedding.
\<close>

record libs =
  sha256 :: "byte list \<Rightarrow> byte list"
  hmac_sha512 :: "byte list \<Rightarrow> byte list \<Rightarrow> byte list"
  base64 :: "byte list \<Rightarrow> string"
  querystring_stringify :: "jsvalue \<Rightarrow> string"
  cheerio_body_text :: "jsvalue \<Rightarrow> string"

text \<open>The two header objects the module builds, and the options handed to \<open>request\<close>.\<close>

record headers =
  User_Agent :: string
  Content_type :: "string option"
  Authorization :: "string option"
  X_Auth_Timestamp :: "int option"
  X_Auth_Nonce :: "int option"

record options =
  options_method :: string
  options_uri :: string
  options_headers :: headers
  options_json :: jsvalue
  options_timeout :: "int option"

text \<open>
  What \<open>request\<close> passes to its callback: the transport error if there is one, the
  status code of the response and its body (parsed when it was JSON).
\<close>

record transport_outcome =
  err :: "string option"
  statusCode :: int
  body :: jsvalue

type_synonym network = "options \<Rightarrow> transport_outcome"

subsection \<open>Errors and results\<close>

text \<open>
  The errors the module creates, one constructor for each \<open>new VError\<close> of the source,
  with the request description and the values formatted into the message. The name
  the source sets on the error is the code, the error text or the status code it
  carries.
\<close>

datatype verror =
    CredentialsMissing
  | VersionInvalid string
  | Transport string string
  | EmptyResponse string
  | UnparseableHTML string string
  | UnparseableBody string
  | ApiErrorCode string jsvalue jsvalue
  | ApiErrorMessage string jsvalue
  | HttpStatus string int jsvalue

text \<open>
  What a call does to its caller: it throws, or the callback is called with an error
  (or \<open>null\<close>) and a second argument (\<open>undefined\<close> when the source passes none).
\<close>

datatype outcome =
    Thrown js_exception
  | Callback "verror option" jsvalue

subsection \<open>The instance\<close>

record settings =
  key_setting :: "string option"
  secret_setting :: "string option"
  serverV1_setting :: "string option"
  serverV2_setting :: "string option"
  timeout_setting :: "int option"

record client =
  key :: "string option"
  secret :: "string option"
  serverV1 :: string
  serverV2 :: string
  timeout :: int
  nonce :: int

text \<open>
  The module variable \<open>self\<close> holds the instance constructed last; every request
  function reads and writes that instance and no method uses its receiver. A call
  therefore takes the value of \<open>self\<close> and returns it updated, with the requests it
  handed to the network and what the caller got.
\<close>

record call_result =
  state :: client
  sent :: "options list"
  delivered :: outcome

definition string_or :: "string option \<Rightarrow> string \<Rightarrow> string" where
  "string_or s d = (case s of None \<Rightarrow> d | Some t \<Rightarrow> if t \<noteq> [] then t else d)"

definition ItBit :: "settings \<Rightarrow> int \<Rightarrow> client" where
  "ItBit settings now =
     \<lparr> key = key_setting settings,
       secret = secret_setting settings,
       serverV1 = string_or (serverV1_setting settings) ''https://api.itbit.com/v1'',
       serverV2 = string_or (serverV2_setting settings) ''https://www.itbit.com/api/v2'',
       timeout = (case timeout_setting settings of
                    None \<Rightarrow> 20000 | Some t \<Rightarrow> if t \<noteq> 0 then t else 20000),
       nonce = now \<rparr>"

definition present :: "string option \<Rightarrow> bool" where
  "present s = (case s of None \<Rightarrow> False | Some t \<Rightarrow> t \<noteq> [])"

definition string_of :: "string option \<Rightarrow> string" where
  "string_of s = (case s of None \<Rightarrow> ''undefined'' | Some t \<Rightarrow> t)"

subsection \<open>executeRequest\<close>

definition requestDesc :: "options \<Rightarrow> string" where
  "requestDesc opts =
     (if options_method opts = ''GET'' then
        options_method opts @ '' request to url '' @ options_uri opts
      else options_method opts @ '' request to url '' @ options_uri opts @
           '' with nonce '' @
           (case X_Auth_Nonce (options_headers opts) of
              None \<Rightarrow> ''undefined'' | Some n \<Rightarrow> number_toString n) @
           '' and data '' @ string_of (JSON_stringify (options_json opts)))"

text \<open>The callback given to \<open>request\<close>: the error it computes, \<open>None\<close> for \<open>null\<close>.\<close>

definition response_error :: "libs \<Rightarrow> string \<Rightarrow> transport_outcome \<Rightarrow> verror option" where
  "response_error L desc out =
     (case err out of
        Some e \<Rightarrow> Some (Transport e desc)
      | None \<Rightarrow>
          if \<not> truthy (body out) then Some (EmptyResponse desc)
          else if \<not> isObject (body out) then
            (let responseBody = cheerio_body_text L (body out) in
             if responseBody \<noteq> [] then Some (UnparseableHTML desc responseBody)
             else Some (UnparseableBody desc))
          else if truthy (get_prop (body out) ''code'') then
            Some (ApiErrorCode desc (get_prop (body out) ''code'')
                                    (get_prop (body out) ''description''))
          else if truthy (get_prop (body out) ''error'') then
            Some (ApiErrorMessage desc (get_prop (body out) ''error''))
          else if \<not> (statusCode out = 200 \<or> statusCode out = 201 \<or> statusCode out = 202) then
            Some (HttpStatus desc (statusCode out) (body out))
          else None)"

definition executeRequest :: "libs \<Rightarrow> options \<Rightarrow> network \<Rightarrow> options list \<times> outcome" where
  "executeRequest L opts net =
     (let out = net opts
      in ([opts], Callback (response_error L (requestDesc opts) out) (body out)))"

subsection \<open>makePublicRequest and makePrivateRequest\<close>

definition makePublicRequest ::
  "libs \<Rightarrow> client \<Rightarrow> string \<Rightarrow> string \<Rightarrow> jsvalue \<Rightarrow> network \<Rightarrow> call_result" where
  "makePublicRequest L self version path args net =
     (let params = querystring_stringify L args;
          path = (if params \<noteq> [] then path @ ''?'' @ params else path)
      in if version \<noteq> ''v1'' \<and> version \<noteq> ''v2'' then
           \<lparr> state = self, sent = [],
             delivered = Callback (Some (VersionInvalid version)) JUndefined \<rparr>
         else
           let server = (if version = ''v1'' then serverV1 self else serverV2 self);
               opts = \<lparr> options_method = ''GET'', options_uri = server @ path,
                        options_headers = \<lparr> User_Agent = ''itBit node.js client'',
                                    Content_type = Some ''application/x-www-form-urlencoded'',
                                    Authorization = None, X_Auth_Timestamp = None,
                                    X_Auth_Nonce = None \<rparr>,
                        options_json = args, options_timeout = None \<rparr>;
               r = executeRequest L opts net
           in \<lparr> state = self, sent = fst r, delivered = snd r \<rparr>)"

text \<open>The locals of \<open>makePrivateRequest\<close>: \<open>postData\<close>, \<open>uri\<close>, \<open>message\<close>, \<open>signature\<close>.\<close>

definition private_postData :: "string \<Rightarrow> jsvalue \<Rightarrow> jsvalue" where
  "private_postData method args =
     (if method = ''POST'' \<or> method = ''PUT'' then of_result (JSON_stringify args)
      else JStr [])"

definition private_uri :: "libs \<Rightarrow> client \<Rightarrow> string \<Rightarrow> string \<Rightarrow> jsvalue \<Rightarrow> string" where
  "private_uri L self method path args =
     (if method = ''POST'' \<or> method = ''PUT'' then serverV1 self @ path
      else if method = ''GET'' \<and> \<not> isEmpty args then
        serverV1 self @ path @ ''?'' @ querystring_stringify L args
      else serverV1 self @ path)"

definition private_message :: "string \<Rightarrow> string \<Rightarrow> jsvalue \<Rightarrow> int \<Rightarrow> int \<Rightarrow> string" where
  "private_message = (\<lambda>method uri postData nonce timestamp.
     number_toString nonce @
     string_of (JSON_stringify (JArr [JStr method, JStr uri, postData,
                                      JStr (number_toString nonce),
                                      JStr (number_toString timestamp)])))"

definition private_signature :: "libs \<Rightarrow> client \<Rightarrow> string \<Rightarrow> string \<Rightarrow> string" where
  "private_signature L self uri message =
     (let hashBuffer = sha256 L (utf8 message);
          bufferToHash = utf8 uri @ hashBuffer
      in base64 L (hmac_sha512 L (utf8 (string_of (secret self))) bufferToHash))"

definition makePrivateRequest ::
  "libs \<Rightarrow> client \<Rightarrow> string \<Rightarrow> string \<Rightarrow> jsvalue \<Rightarrow> int \<Rightarrow> network \<Rightarrow> call_result" where
  "makePrivateRequest L self method path args now net =
     (if \<not> present (key self) \<or> \<not> present (secret self) then
        \<lparr> state = self, sent = [],
          delivered = Callback (Some CredentialsMissing) JUndefined \<rparr>
      else
        let uri = private_uri L self method path args;
            postData = private_postData method args;
            timestamp = now;
            nonce = client.nonce self;
            self = self\<lparr> nonce := client.nonce self + 1 \<rparr>;
            message = private_message method uri postData nonce timestamp;
            signature = private_signature L self uri message;
            opts = \<lparr> options_method = method, options_uri = uri,
                     options_headers = \<lparr> User_Agent = ''itBit node.js client'',
                                 Content_type = None,
                                 Authorization = Some (string_of (key self) @ '':'' @ signature),
                                 X_Auth_Timestamp = Some timestamp,
                                 X_Auth_Nonce = Some nonce \<rparr>,
                     options_json = args, options_timeout = Some (timeout self) \<rparr>;
            r = executeRequest L opts net
        in \<lparr> state = self, sent = fst r, delivered = snd r \<rparr>)"

subsection \<open>The operations of the prototype\<close>

text \<open>
  Wallet, order and ticker identifiers are strings (a template literal inserts them
  as they are); the other arguments are any value.
\<close>

definition getOrderBook :: "libs \<Rightarrow> client \<Rightarrow> string \<Rightarrow> network \<Rightarrow> call_result" where
  "getOrderBook L self tickerSymbol net =
     makePublicRequest L self ''v1'' (''/markets/'' @ tickerSymbol @ ''/order_book'') (JObj []) net"

definition getTicker :: "libs \<Rightarrow> client \<Rightarrow> string \<Rightarrow> network \<Rightarrow> call_result" where
  "getTicker L self tickerSymbol net =
     makePublicRequest L self ''v1'' (''/markets/'' @ tickerSymbol @ ''/ticker'') (JObj []) net"

definition getTrades :: "libs \<Rightarrow> client \<Rightarrow> string \<Rightarrow> jsvalue \<Rightarrow> network \<Rightarrow> call_result" where
  "getTrades L self tickerSymbol since net =
     makePublicRequest L self ''v1''
       (''/markets/'' @ tickerSymbol @ ''/trades?since='' @
        ToString (if truthy since then since else JNum ''0'')) (JObj []) net"

definition getWallets :: "libs \<Rightarrow> client \<Rightarrow> jsvalue \<Rightarrow> int \<Rightarrow> network \<Rightarrow> call_result" where
  "getWallets L self userId now net =
     makePrivateRequest L self ''GET'' ''/wallets'' (JObj [(''userId'', userId)]) now net"

definition getWallet :: "libs \<Rightarrow> client \<Rightarrow> string \<Rightarrow> int \<Rightarrow> network \<Rightarrow> call_result" where
  "getWallet L self walletId now net =
     makePrivateRequest L self ''GET'' (''/wallets/'' @ walletId) (JObj []) now net"

definition getOrders ::
  "libs \<Rightarrow> client \<Rightarrow> string \<Rightarrow> jsvalue \<Rightarrow> jsvalue \<Rightarrow> int \<Rightarrow> network \<Rightarrow> call_result" where
  "getOrders L self walletId instrument status now net =
     (let args = JObj [(''instrument'', instrument), (''status'', status)]
      in makePrivateRequest L self ''GET'' (''/wallets/'' @ walletId @ ''/orders'') args now net)"

definition getOrder ::
  "libs \<Rightarrow> client \<Rightarrow> string \<Rightarrow> string \<Rightarrow> int \<Rightarrow> network \<Rightarrow> call_result" where
  "getOrder L self walletId id' now net =
     makePrivateRequest L self ''GET'' (''/wallets/'' @ walletId @ ''/orders/'' @ id') (JObj []) now net"

text \<open>
  \<open>addOrder\<close>: the object literal is evaluated first, property by property, so a
  \<open>toString\<close> that throws leaves the call before \<open>makePrivateRequest\<close> is reached.
  The instrument is a string; \<open>slice(0, 3)\<close> keeps its first three code units.
\<close>

definition addOrder ::
  "libs \<Rightarrow> client \<Rightarrow> string \<Rightarrow> jsvalue \<Rightarrow> jsvalue \<Rightarrow> jsvalue \<Rightarrow> jsvalue \<Rightarrow> string \<Rightarrow> jsvalue \<Rightarrow> jsvalue
     \<Rightarrow> int \<Rightarrow> network \<Rightarrow> call_result" where
  "addOrder L self walletId side type amount price instrument metadata clientOrderIdentifier
            now net =
     (case toString amount of
        Inl e \<Rightarrow> \<lparr> state = self, sent = [], delivered = Thrown e \<rparr>
      | Inr amount_string \<Rightarrow>
     (case toString price of
        Inl e \<Rightarrow> \<lparr> state = self, sent = [], delivered = Thrown e \<rparr>
      | Inr price_string \<Rightarrow>
          let args = JObj [(''side'', side), (''type'', type),
                           (''currency'', JStr (take 3 instrument)),
                           (''amount'', JStr amount_string),
                           (''price'', JStr price_string),
                           (''instrument'', JStr instrument)];
              args = (if truthy metadata then set_prop args ''metadata'' metadata else args);
              args = (if truthy clientOrderIdentifier
                      then set_prop args ''clientOrderIdentifier'' clientOrderIdentifier
                      else args)
          in makePrivateRequest L self ''POST'' (''/wallets/'' @ walletId @ ''/orders'') args
               now net))"

definition cancelOrder ::
  "libs \<Rightarrow> client \<Rightarrow> string \<Rightarrow> string \<Rightarrow> int \<Rightarrow> network \<Rightarrow> call_result" where
  "cancelOrder L self walletId id' now net =
     makePrivateRequest L self ''DELETE'' (''/wallets/'' @ walletId @ ''/orders/'' @ id') (JObj [])
       now net"

definition getWalletTrades ::
  "libs \<Rightarrow> client \<Rightarrow> string \<Rightarrow> jsvalue \<Rightarrow> int \<Rightarrow> network \<Rightarrow> call_result" where
  "getWalletTrades L self walletId params now net =
     makePrivateRequest L self ''GET'' (''/wallets/'' @ walletId @ ''/trades'') params now net"

definition getFundingHistory ::
  "libs \<Rightarrow> client \<Rightarrow> string \<Rightarrow> jsvalue \<Rightarrow> int \<Rightarrow> network \<Rightarrow> call_result" where
  "getFundingHistory L self walletId params now net =
     makePrivateRequest L self ''GET'' (''/wallets/'' @ walletId @ ''/funding_history'') params
       now net"

definition cryptocurrency_withdrawals ::
  "libs \<Rightarrow> client \<Rightarrow> string \<Rightarrow> jsvalue \<Rightarrow> jsvalue \<Rightarrow> jsvalue \<Rightarrow> int \<Rightarrow> network \<Rightarrow> call_result" where
  "cryptocurrency_withdrawals L self walletId currency amount address now net =
     (let args = JObj [(''currency'', currency), (''amount'', amount), (''address'', address)]
      in makePrivateRequest L self ''POST''
           (''/wallets/'' @ walletId @ ''/cryptocurrency_withdrawals'') args now net)"

definition cryptocurrency_deposits ::
  "libs \<Rightarrow> client \<Rightarrow> string \<Rightarrow> jsvalue \<Rightarrow> int \<Rightarrow> network \<Rightarrow> call_result" where
  "cryptocurrency_deposits L self walletId currency now net =
     (let args = JObj [(''currency'', currency)]
      in makePrivateRequest L self ''POST''
           (''/wallets/'' @ walletId @ ''/cryptocurrency_deposits'') args now net)"

text \<open>A call of one of the private operations of the prototype.\<close>

datatype private_call =
    GetWallets jsvalue
  | GetWallet string
  | GetOrders string jsvalue jsvalue
  | GetOrder string string
  | AddOrder string jsvalue jsvalue jsvalue jsvalue string jsvalue jsvalue
  | CancelOrder string string
  | GetWalletTrades string jsvalue
  | GetFundingHistory string jsvalue
  | Cryptocurrency_withdrawals string jsvalue jsvalue jsvalue
  | Cryptocurrency_deposits string jsvalue

fun perform :: "libs \<Rightarrow> client \<Rightarrow> private_call \<Rightarrow> int \<Rightarrow> network \<Rightarrow> call_result" where
  "perform L self (GetWallets userId) now net = getWallets L self userId now net"
| "perform L self (GetWallet walletId) now net = getWallet L self walletId now net"
| "perform L self (GetOrders walletId instrument status) now net =
     getOrders L self walletId instrument status now net"
| "perform L self (GetOrder walletId id') now net = getOrder L self walletId id' now net"
| "perform L self (AddOrder walletId side type amount price instrument metadata coid) now net =
     addOrder L self walletId side type amount price instrument metadata coid now net"
| "perform L self (CancelOrder walletId id') now net = cancelOrder L self walletId id' now net"
| "perform L self (GetWalletTrades walletId params) now net =
     getWalletTrades L self walletId params now net"
| "perform L self (GetFundingHistory walletId params) now net =
     getFundingHistory L self walletId params now net"
| "perform L self (Cryptocurrency_withdrawals walletId currency amount address) now net =
     cryptocurrency_withdrawals L self walletId currency amount address now net"
| "perform L self (Cryptocurrency_deposits walletId currency) now net =
     cryptocurrency_deposits L self walletId currency now net"

text \<open>
  The calls that throw while they build their arguments: \<open>addOrder\<close> calls
  \<open>toString\<close> on the amount and on the price.
\<close>

fun conversion_throws :: "private_call \<Rightarrow> bool" where
  "conversion_throws (AddOrder walletId side type amount price instrument metadata coid) =
     (amount = JNull \<or> amount = JUndefined \<or> price = JNull \<or> price = JUndefined)"
| "conversion_throws call = False"

subsection \<open>Instances and the module variable\<close>

text \<open>
  The module has one variable, \<open>self\<close>, and the constructor sets it to the instance
  under construction. The request functions read the credentials, the server and the
  counter through \<open>self\<close>, and no method of the prototype uses its receiver. The
  state of the module is therefore the instances constructed so far (an instance is
  referred to by its position) and the instance \<open>self\<close> refers to, if any.
\<close>

record module_state =
  instances :: "client list"
  self_ref :: "nat option"

definition no_instances :: module_state where
  "no_instances = \<lparr> instances = [], self_ref = None \<rparr>"

text \<open>\<open>new ItBit(settings)\<close> at the clock reading \<open>now\<close>; the new instance is the last one.\<close>

definition construct :: "settings \<Rightarrow> int \<Rightarrow> module_state \<Rightarrow> module_state" where
  "construct settings now m =
     \<lparr> instances = instances m @ [ItBit settings now],
       self_ref = Some (length (instances m)) \<rparr>"

record module_result =
  module_after :: module_state
  module_sent :: "options list"
  module_delivered :: outcome

text \<open>
  A call that works through \<open>self\<close>: while \<open>self\<close> is \<open>undefined\<close>, reading a property
  of it throws a TypeError; otherwise the call reads the instance \<open>self\<close> refers to and
  leaves it updated.
\<close>

definition through_self :: "module_state \<Rightarrow> (client \<Rightarrow> call_result) \<Rightarrow> module_result" where
  "through_self m f =
     (case self_ref m of
        None \<Rightarrow> \<lparr> module_after = m, module_sent = [], module_delivered = Thrown TypeError \<rparr>
      | Some r \<Rightarrow>
          if r < length (instances m) then
            let res = f (instances m ! r)
            in \<lparr> module_after = m\<lparr> instances := (instances m)[r := state res] \<rparr>,
                 module_sent = sent res, module_delivered = delivered res \<rparr>
          else \<lparr> module_after = m, module_sent = [], module_delivered = Thrown TypeError \<rparr>)"

text \<open>
  A private operation called on the instance \<open>this\<close>, and a private request (method,
  path and arguments, with the clock reading at the call and the network's answer)
  made by an operation called on the instance \<open>this\<close>. The receiver is not used.
\<close>

definition call_method ::
  "libs \<Rightarrow> module_state \<Rightarrow> nat \<Rightarrow> private_call \<Rightarrow> int \<Rightarrow> network \<Rightarrow> module_result" where
  "call_method L m this call now net = through_self m (\<lambda>self. perform L self call now net)"

record private_request =
  request_method :: string
  request_path :: string
  request_args :: jsvalue
  request_time :: int
  request_network :: network

definition request_through ::
  "libs \<Rightarrow> module_state \<Rightarrow> nat \<Rightarrow> private_request \<Rightarrow> module_result" where
  "request_through L m this q =
     through_self m (\<lambda>self. makePrivateRequest L self (request_method q) (request_path q)
                               (request_args q) (request_time q) (request_network q))"

text \<open>
  What a program does with the module: it constructs instances and makes private
  requests through them. A run returns the last state of the module and, for every
  request handed to the network, the instance it was made through and its nonce.
\<close>

datatype event =
    Construct settings int
  | Request nat private_request

definition nonces_of :: "nat \<Rightarrow> options list \<Rightarrow> (nat \<times> int) list" where
  "nonces_of this xs =
     concat (map (\<lambda>opts. case X_Auth_Nonce (options_headers opts) of
                            None \<Rightarrow> [] | Some n \<Rightarrow> [(this, n)]) xs)"

fun run_events :: "libs \<Rightarrow> module_state \<Rightarrow> event list \<Rightarrow> module_state \<times> (nat \<times> int) list" where
  "run_events L m [] = (m, [])"
| "run_events L m (Construct settings now # es) = run_events L (construct settings now m) es"
| "run_events L m (Request this q # es) =
     (let res = request_through L m this q;
          rest = run_events L (module_after res) es
      in (fst rest, nonces_of this (module_sent res) @ snd rest))"

text \<open>The nonces of the requests made through one instance, in order.\<close>

definition nonces_through :: "nat \<Rightarrow> (nat \<times> int) list \<Rightarrow> int list" where
  "nonces_through this log = map snd (filter (\<lambda>p. fst p = this) log)"

subsection \<open>Concrete instances\<close>

text \<open>
  Stand-ins for the libraries, settings with and without a key, an instance with
  credentials constructed at the clock reading 41, and a network that gives one fixed
  answer; the
  examples below are evaluated on them. The stand-ins only have the types of the
  library functions.
\<close>

definition example_libs :: libs where
  "example_libs =
     \<lparr> sha256 = (\<lambda>bs. rev bs),
       hmac_sha512 = (\<lambda>k bs. k @ bs),
       base64 = (\<lambda>bs. replicate (length bs) CHR ''A''),
       querystring_stringify = (\<lambda>v. if isEmpty v then [] else ''a=b''),
       cheerio_body_text = (\<lambda>v. case v of JStr s \<Rightarrow> s | _ \<Rightarrow> []) \<rparr>"

definition credentials :: settings where
  "credentials =
     \<lparr> key_setting = Some ''k'', secret_setting = Some ''s'',
       serverV1_setting = Some ''https://h'', serverV2_setting = None,
       timeout_setting = None \<rparr>"

definition no_key :: settings where
  "no_key = credentials\<lparr> key_setting := None \<rparr>"

definition example_client :: client where
  "example_client = ItBit credentials 41"

definition answer :: "string option \<Rightarrow> int \<Rightarrow> jsvalue \<Rightarrow> network" where
  "answer e status b = (\<lambda>opts. \<lparr> err = e, statusCode = status, body = b \<rparr>)"

definition example_options :: options where
  "example_options =
     \<lparr> options_method = ''GET'', options_uri = ''https://h/wallets'',
       options_headers = \<lparr> User_Agent = ''itBit node.js client'', Content_type = None,
                           Authorization = Some ''k:AAAA'', X_Auth_Timestamp = Some 1700,
                           X_Auth_Nonce = Some 41 \<rparr>,
       options_json = JObj [], options_timeout = Some 20000 \<rparr>"

text \<open>
  Three private requests: the first meets a transport error, the second an API
  error, the third succeeds.
\<close>

definition failing_request :: private_request where
  "failing_request =
     \<lparr> request_method = ''GET'', request_path = ''/wallets'', request_args = JObj [],
       request_time = 1700, request_network = answer (Some ''ETIMEDOUT'') 0 JUndefined \<rparr>"

definition refused_request :: private_request where
  "refused_request =
     \<lparr> request_method = ''POST'', request_path = ''/wallets/w1/orders'',
       request_args = JObj [(''side'', JStr ''buy'')], request_time = 1700,
       request_network = answer None 400 (JObj [(''code'', JStr ''ERR001'')]) \<rparr>"

definition accepted_request :: private_request where
  "accepted_request =
     \<lparr> request_method = ''DELETE'', request_path = ''/wallets/w1/orders/o1'',
       request_args = JObj [], request_time = 1701,
       request_network = answer None 202 (JObj [(''id'', JStr ''o1'')]) \<rparr>"

section \<open>Properties\<close>

subsection \<open>Evaluation of the concrete instances\<close>

lemma example_client_fields:
  "key example_client = Some ''k''" "secret example_client = Some ''s''"
  "serverV1 example_client = ''https://h''" "nonce example_client = 41"
  "timeout example_client = 20000"
  by (simp_all add: example_client_def credentials_def ItBit_def string_or_def)

lemma example_client_present: "present (key example_client)" "present (secret example_client)"
  by (simp_all add: example_client_fields present_def)

lemma constructed_fields:
  "key (ItBit credentials t) = Some ''k''" "secret (ItBit credentials t) = Some ''s''"
  "serverV1 (ItBit credentials t) = ''https://h''" "nonce (ItBit credentials t) = t"
  "key (ItBit no_key t) = None" "secret (ItBit no_key t) = Some ''s''"
  "serverV1 (ItBit no_key t) = ''https://h''" "nonce (ItBit no_key t) = t"
  by (simp_all add: credentials_def no_key_def ItBit_def string_or_def)

subsection \<open>Decimal strings need no escape\<close>

lemma quote_unit_digit: "k < 10 \<Longrightarrow> quote_unit (''0123456789'' ! k) = [''0123456789'' ! k]"
proof -
  assume "k < 10"
  then have "k = 0 \<or> k = 1 \<or> k = 2 \<or> k = 3 \<or> k = 4 \<or> k = 5 \<or> k = 6 \<or> k = 7 \<or> k = 8 \<or> k = 9"
    by arith
  then show ?thesis
    by (elim disjE) (simp_all add: quote_unit_def)
qed

lemma quote_unit_minus: "quote_unit CHR ''-'' = [CHR ''-'']"
  by (simp add: quote_unit_def)

lemma quote_unit_digits: "c \<in> set (digits n) \<Longrightarrow> quote_unit c = [c]"
proof (induction n rule: digits.induct)
  case (1 n)
  show ?case
  proof (cases "n < 10")
    case True
    with "1.prems" show ?thesis
      by (subst (asm) digits.simps) (simp add: quote_unit_digit)
  next
    case False
    have "n mod 10 < 10" by simp
    then have last: "quote_unit (''0123456789'' ! (n mod 10)) = [''0123456789'' ! (n mod 10)]"
      by (rule quote_unit_digit)
    from "1.prems" False have "c \<in> set (digits (n div 10)) \<or> c = ''0123456789'' ! (n mod 10)"
      by (subst (asm) digits.simps) auto
    with "1.IH" False last show ?thesis by auto
  qed
qed

lemma quote_unit_number: "c \<in> set (number_toString n) \<Longrightarrow> quote_unit c = [c]"
  by (auto simp: number_toString_def quote_unit_digits quote_unit_minus split: if_splits)

lemma concat_quote_plain:
  "(\<And>c. c \<in> set s \<Longrightarrow> quote_unit c = [c]) \<Longrightarrow> concat (map quote_unit s) = s"
  by (induction s) simp_all

lemma json_quote_number:
  "json_quote (number_toString n) = CHR 0x22 # number_toString n @ [CHR 0x22]"
  by (simp add: json_quote_def concat_quote_plain quote_unit_number)

subsection \<open>The canonical message\<close>

text \<open>
  C1. The message signed for a private request is the nonce in decimal followed by
  the JSON array of five strings: the method, the URI and the body as JSON string
  literals, then the nonce and the timestamp as decimal strings in double quotes
  (strings, not numbers), in this order. The message is a function of these five
  inputs alone.
\<close>

theorem canonical_message_layout:
  "private_message method uri (JStr postData) n timestamp =
     number_toString n @ ''['' @ json_quote method @ '','' @ json_quote uri @ '','' @
     json_quote postData @ '','' @ [CHR 0x22] @ number_toString n @ [CHR 0x22] @ '','' @
     [CHR 0x22] @ number_toString timestamp @ [CHR 0x22] @ '']''"
  by (simp add: private_message_def string_of_def json_quote_number)

text \<open>The message of a GET request with nonce 41 at time 1700.\<close>

lemma canonical_message_example:
  "private_message ''GET'' ''https://h/wallets'' (JStr []) 41 1700 =
     ''41['' @ CHR 0x22 # ''GET'' @ CHR 0x22 # '','' @ CHR 0x22 # ''https://h/wallets'' @
     CHR 0x22 # '','' @ CHR 0x22 # CHR 0x22 # '','' @ CHR 0x22 # ''41'' @ CHR 0x22 # '','' @
     CHR 0x22 # ''1700'' @ CHR 0x22 # '']''"
  by (simp add: private_message_def string_of_def json_quote_def quote_unit_def
        number_toString_def digits.simps)

subsection \<open>The request handed to the network\<close>

text \<open>With credentials, a private call sends exactly one request and counts the nonce up.\<close>

lemma makePrivateRequest_sent:
  assumes "present (key self)" "present (secret self)"
  shows "makePrivateRequest L self method path args now net =
     (let uri = private_uri L self method path args;
          opts = \<lparr> options_method = method, options_uri = uri,
                   options_headers = \<lparr> User_Agent = ''itBit node.js client'',
                     Content_type = None,
                     Authorization = Some (string_of (key self) @ '':'' @
                       private_signature L self uri
                         (private_message method uri (private_postData method args)
                            (nonce self) now)),
                     X_Auth_Timestamp = Some now,
                     X_Auth_Nonce = Some (nonce self) \<rparr>,
                   options_json = args, options_timeout = Some (timeout self) \<rparr>
      in \<lparr> state = self\<lparr> nonce := nonce self + 1 \<rparr>, sent = [opts],
           delivered = Callback (response_error L (requestDesc opts) (net opts))
                                (body (net opts)) \<rparr>)"
  using assms
  by (simp add: makePrivateRequest_def executeRequest_def Let_def private_signature_def)

text \<open>
  C2. The signature in the Authorization header of a private request is the base64
  encoding of the keyed 512-bit hash, under the secret, of the UTF-8 bytes of the URI
  followed by the 256-bit hash of the canonical message; the URI is the one the
  request is sent to and the one inside the message.
\<close>

theorem signature_construction:
  assumes "key self = Some k" and "k \<noteq> []" and "secret self = Some s" and "s \<noteq> []"
  shows "map (\<lambda>opts. (options_uri opts, Authorization (options_headers opts)))
           (sent (makePrivateRequest L self method path args now net)) =
         [(private_uri L self method path args,
           Some (k @ '':'' @
             base64 L (hmac_sha512 L (utf8 s)
               (utf8 (private_uri L self method path args) @
                sha256 L (utf8 (private_message method (private_uri L self method path args)
                                 (private_postData method args) (nonce self) now))))))]"
  using assms
  by (simp add: makePrivateRequest_sent present_def Let_def private_signature_def string_of_def)

theorem signature_construction_witness:
  "key example_client = Some ''k'' \<and> ''k'' \<noteq> [] \<and> secret example_client = Some ''s'' \<and> ''s'' \<noteq> [] \<and>
   map (\<lambda>opts. (options_uri opts, Authorization (options_headers opts)))
     (sent (makePrivateRequest example_libs example_client ''GET'' ''/wallets'' (JObj []) 1700
              (answer None 200 (JArr [])))) =
   [(''https://h/wallets'',
     Some (''k:'' @ base64 example_libs (hmac_sha512 example_libs (utf8 ''s'')
        (utf8 ''https://h/wallets'' @
         sha256 example_libs (utf8 (private_message ''GET'' ''https://h/wallets'' (JStr []) 41 1700))))))]"
  using signature_construction [of example_client "''k''" "''s''" example_libs "''GET''"
      "''/wallets''" "JObj []" 1700 "answer None 200 (JArr [])"]
  by (simp add: example_client_fields private_uri_def private_postData_def)

subsection \<open>The response classifier\<close>

lemma isObject_truthy: "isObject v \<Longrightarrow> truthy v"
  by (cases v) simp_all

text \<open>
  C3, as the claim states it, fails: a body that has a \<open>code\<close> field whose value is
  falsy (here the number 0) with status 200 is a success, not an API error.
\<close>

theorem classifier_code_field_counterexample:
  "map_of [(''code'', JNum ''0'')] ''code'' = Some (JNum ''0'') \<and>
   response_error example_libs ''d''
     \<lparr> err = None, statusCode = 200, body = JObj [(''code'', JNum ''0'')] \<rparr> = None"
  by (simp add: response_error_def)

text \<open>
  C3, amended. The classifier applies these rules in this order and the first match
  wins: a transport error gives Transport; a falsy body (absent, \<open>null\<close>, the empty
  string, 0, \<open>false\<close>) gives EmptyResponse; a body that is neither an object nor an
  array gives UnparseableHTML when the extracted text is not empty and UnparseableBody
  otherwise; a truthy \<open>code\<close> property gives the API error with that code and the
  description; a truthy \<open>error\<close> property gives the API error with that text; a status
  other than 200, 201, 202 gives HttpStatus; anything else is a success.
\<close>

theorem classifier_precedence:
  "(err out = Some e \<longrightarrow> response_error L desc out = Some (Transport e desc)) \<and>
   (err out = None \<and> \<not> truthy (body out) \<longrightarrow>
      response_error L desc out = Some (EmptyResponse desc)) \<and>
   (err out = None \<and> truthy (body out) \<and> \<not> isObject (body out) \<and>
    cheerio_body_text L (body out) \<noteq> [] \<longrightarrow>
      response_error L desc out =
        Some (UnparseableHTML desc (cheerio_body_text L (body out)))) \<and>
   (err out = None \<and> truthy (body out) \<and> \<not> isObject (body out) \<and>
    cheerio_body_text L (body out) = [] \<longrightarrow>
      response_error L desc out = Some (UnparseableBody desc)) \<and>
   (err out = None \<and> isObject (body out) \<and> truthy (get_prop (body out) ''code'') \<longrightarrow>
      response_error L desc out =
        Some (ApiErrorCode desc (get_prop (body out) ''code'')
                (get_prop (body out) ''description''))) \<and>
   (err out = None \<and> isObject (body out) \<and> \<not> truthy (get_prop (body out) ''code'') \<and>
    truthy (get_prop (body out) ''error'') \<longrightarrow>
      response_error L desc out = Some (ApiErrorMessage desc (get_prop (body out) ''error''))) \<and>
   (err out = None \<and> isObject (body out) \<and> \<not> truthy (get_prop (body out) ''code'') \<and>
    \<not> truthy (get_prop (body out) ''error'') \<and> statusCode out \<notin> {200, 201, 202} \<longrightarrow>
      response_error L desc out = Some (HttpStatus desc (statusCode out) (body out))) \<and>
   (err out = None \<and> isObject (body out) \<and> \<not> truthy (get_prop (body out) ''code'') \<and>
    \<not> truthy (get_prop (body out) ''error'') \<and> statusCode out \<in> {200, 201, 202} \<longrightarrow>
      response_error L desc out = None)"
  by (auto simp: response_error_def isObject_truthy)

text \<open>One response for each rule, in the order of the rules.\<close>

theorem classifier_precedence_witness:
  "response_error example_libs ''d'' \<lparr> err = Some ''ETIMEDOUT'', statusCode = 0, body = JUndefined \<rparr> =
     Some (Transport ''ETIMEDOUT'' ''d'') \<and>
   response_error example_libs ''d'' \<lparr> err = None, statusCode = 200, body = JStr [] \<rparr> =
     Some (EmptyResponse ''d'') \<and>
   response_error example_libs ''d''
     \<lparr> err = None, statusCode = 503, body = JStr ''Service Unavailable'' \<rparr> =
     Some (UnparseableHTML ''d'' ''Service Unavailable'') \<and>
   response_error example_libs ''d'' \<lparr> err = None, statusCode = 200, body = JNum ''7'' \<rparr> =
     Some (UnparseableBody ''d'') \<and>
   response_error example_libs ''d''
     \<lparr> err = None, statusCode = 400,
       body = JObj [(''code'', JStr ''ERR001''), (''description'', JStr ''Invalid nonce'')] \<rparr> =
     Some (ApiErrorCode ''d'' (JStr ''ERR001'') (JStr ''Invalid nonce'')) \<and>
   response_error example_libs ''d''
     \<lparr> err = None, statusCode = 200, body = JObj [(''error'', JStr ''maintenance'')] \<rparr> =
     Some (ApiErrorMessage ''d'' (JStr ''maintenance'')) \<and>
   response_error example_libs ''d''
     \<lparr> err = None, statusCode = 500, body = JObj [(''id'', JStr ''abc'')] \<rparr> =
     Some (HttpStatus ''d'' 500 (JObj [(''id'', JStr ''abc'')])) \<and>
   response_error example_libs ''d''
     \<lparr> err = None, statusCode = 201,
       body = JObj [(''id'', JStr ''abc123''), (''status'', JStr ''open'')] \<rparr> = None"
  using
    classifier_precedence
      [of "\<lparr> err = Some ''ETIMEDOUT'', statusCode = 0, body = JUndefined \<rparr>" "''ETIMEDOUT''"
          example_libs "''d''"]
    classifier_precedence
      [of "\<lparr> err = None, statusCode = 200, body = JStr [] \<rparr>" _ example_libs "''d''"]
    classifier_precedence
      [of "\<lparr> err = None, statusCode = 503, body = JStr ''Service Unavailable'' \<rparr>" _
          example_libs "''d''"]
    classifier_precedence
      [of "\<lparr> err = None, statusCode = 200, body = JNum ''7'' \<rparr>" _ example_libs "''d''"]
    classifier_precedence
      [of "\<lparr> err = None, statusCode = 400,
             body = JObj [(''code'', JStr ''ERR001''), (''description'', JStr ''Invalid nonce'')] \<rparr>"
          _ example_libs "''d''"]
    classifier_precedence
      [of "\<lparr> err = None, statusCode = 200, body = JObj [(''error'', JStr ''maintenance'')] \<rparr>"
          _ example_libs "''d''"]
    classifier_precedence
      [of "\<lparr> err = None, statusCode = 500, body = JObj [(''id'', JStr ''abc'')] \<rparr>" _
          example_libs "''d''"]
    classifier_precedence
      [of "\<lparr> err = None, statusCode = 201,
             body = JObj [(''id'', JStr ''abc123''), (''status'', JStr ''open'')] \<rparr>" _
          example_libs "''d''"]
  by (simp add: example_libs_def)

subsection \<open>The credentials gate\<close>

lemma makePrivateRequest_gate:
  "\<not> present (key self) \<or> \<not> present (secret self) \<Longrightarrow>
   makePrivateRequest L self method path args now net =
     \<lparr> state = self, sent = [], delivered = Callback (Some CredentialsMissing) JUndefined \<rparr>"
  by (auto simp: makePrivateRequest_def)

lemma perform_gate:
  assumes "\<not> present (key self) \<or> \<not> present (secret self)" and "\<not> conversion_throws call"
  shows "perform L self call now net =
     \<lparr> state = self, sent = [], delivered = Callback (Some CredentialsMissing) JUndefined \<rparr>"
  using assms(2)
  by (cases call)
     (simp_all add: makePrivateRequest_gate [OF assms(1)] getWallets_def getWallet_def
        getOrders_def getOrder_def addOrder_def cancelOrder_def getWalletTrades_def
        getFundingHistory_def cryptocurrency_withdrawals_def cryptocurrency_deposits_def
        toString_def Let_def)

lemma through_self_unchanged:
  assumes "self_ref m = Some r" and "r < length (instances m)"
    and "f (instances m ! r) = \<lparr> state = instances m ! r, sent = xs, delivered = d \<rparr>"
  shows "through_self m f = \<lparr> module_after = m, module_sent = xs, module_delivered = d \<rparr>"
  using assms by (simp add: through_self_def Let_def)

text \<open>
  C4, as the claim states it, fails in two ways. The gate looks at the instance
  \<open>self\<close> refers to, the one constructed last: once an instance with credentials has
  been constructed, an operation called on an earlier instance that has no key sends
  a signed request and succeeds. And \<open>addOrder\<close> with the price \<open>null\<close> throws before
  the gate is reached.
\<close>

theorem credentials_gate_counterexample:
  "key (instances (construct credentials 42 (construct no_key 41 no_instances)) ! 0) = None \<and>
   module_sent (call_method example_libs
                  (construct credentials 42 (construct no_key 41 no_instances)) 0
                  (GetWallet ''w1'') 1700 (answer None 200 (JObj [(''id'', JStr ''w1'')]))) \<noteq> [] \<and>
   module_delivered (call_method example_libs
                  (construct credentials 42 (construct no_key 41 no_instances)) 0
                  (GetWallet ''w1'') 1700 (answer None 200 (JObj [(''id'', JStr ''w1'')]))) =
     Callback None (JObj [(''id'', JStr ''w1'')]) \<and>
   module_delivered (call_method example_libs (construct no_key 41 no_instances) 0
                  (AddOrder ''w1'' (JStr ''buy'') (JStr ''market'') (JStr ''1'') JNull ''XBTUSD''
                     JUndefined JUndefined) 1700 (answer None 201 (JObj []))) =
     Thrown TypeError"
  by (simp add: call_method_def through_self_def construct_def no_instances_def Let_def
        constructed_fields getWallet_def makePrivateRequest_sent present_def response_error_def
        answer_def addOrder_def toString_def)

text \<open>
  C4, amended. When the key or the secret of the instance \<open>self\<close> refers to (the
  instance constructed last) is absent or the empty string, a private request made
  through any instance fails with the credentials-missing error, hands nothing to the
  network and leaves the module, the nonce included, as it was; so does every private
  operation of the prototype whose argument conversion does not throw.
\<close>

theorem credentials_gate:
  assumes "self_ref m = Some r" and "r < length (instances m)"
    and "\<not> present (key (instances m ! r)) \<or> \<not> present (secret (instances m ! r))"
  shows "request_through L m this q =
           \<lparr> module_after = m, module_sent = [],
             module_delivered = Callback (Some CredentialsMissing) JUndefined \<rparr> \<and>
         (\<not> conversion_throws call \<longrightarrow>
          call_method L m this call now net =
            \<lparr> module_after = m, module_sent = [],
              module_delivered = Callback (Some CredentialsMissing) JUndefined \<rparr>)"
  using assms
  by (simp add: request_through_def call_method_def through_self_unchanged
        makePrivateRequest_gate perform_gate)

theorem credentials_gate_witness:
  "self_ref (construct no_key 41 no_instances) = Some 0 \<and>
   \<not> present (key (instances (construct no_key 41 no_instances) ! 0)) \<and>
   request_through example_libs (construct no_key 41 no_instances) 0 accepted_request =
     \<lparr> module_after = construct no_key 41 no_instances, module_sent = [],
       module_delivered = Callback (Some CredentialsMissing) JUndefined \<rparr> \<and>
   call_method example_libs (construct no_key 41 no_instances) 0 (CancelOrder ''w1'' ''o1'') 1700
       (answer None 202 (JObj [])) =
     \<lparr> module_after = construct no_key 41 no_instances, module_sent = [],
       module_delivered = Callback (Some CredentialsMissing) JUndefined \<rparr>"
proof -
  have a: "self_ref (construct no_key 41 no_instances) = Some 0"
    and b: "0 < length (instances (construct no_key 41 no_instances))"
    and c: "\<not> present (key (instances (construct no_key 41 no_instances) ! 0))"
    by (simp_all add: construct_def no_instances_def constructed_fields present_def)
  from credentials_gate [OF a b disjI1 [OF c], of example_libs 0 accepted_request
      "CancelOrder ''w1'' ''o1''" 1700 "answer None 202 (JObj [])"] a c
  show ?thesis by simp
qed

subsection \<open>The nonce\<close>

lemma request_through_step:
  assumes "self_ref m = Some r" and "r < length (instances m)"
    and "present (key (instances m ! r))" and "present (secret (instances m ! r))"
  shows "module_after (request_through L m this q) =
           m\<lparr> instances := (instances m)[r := (instances m ! r)\<lparr> nonce := nonce (instances m ! r) + 1 \<rparr>] \<rparr>"
    and "nonces_of this (module_sent (request_through L m this q)) =
           [(this, nonce (instances m ! r))]"
  using assms
  by (simp_all add: request_through_def through_self_def makePrivateRequest_sent Let_def
        nonces_of_def)

lemma run_requests:
  assumes "self_ref m = Some r" and "r < length (instances m)"
    and "present (key (instances m ! r))" and "present (secret (instances m ! r))"
  shows "snd (run_events L m (map (\<lambda>(this, q). Request this q) qs)) =
           zip (map fst qs) (map (\<lambda>i. nonce (instances m ! r) + int i) [0..<length qs]) \<and>
         self_ref (fst (run_events L m (map (\<lambda>(this, q). Request this q) qs))) = Some r \<and>
         r < length (instances (fst (run_events L m (map (\<lambda>(this, q). Request this q) qs)))) \<and>
         nonce (instances (fst (run_events L m (map (\<lambda>(this, q). Request this q) qs))) ! r) =
           nonce (instances m ! r) + int (length qs)"
  using assms
proof (induction qs arbitrary: m)
  case Nil
  then show ?case by simp
next
  case (Cons tq qs)
  obtain this q where tq: "tq = (this, q)" by (cases tq)
  let ?c = "instances m ! r"
  let ?m = "m\<lparr> instances := (instances m)[r := ?c\<lparr> nonce := nonce ?c + 1 \<rparr>] \<rparr>"
  note step = request_through_step [OF Cons.prems, where L = L and this = this and q = q]
  have m': "self_ref ?m = Some r" "r < length (instances ?m)"
    "present (key (instances ?m ! r))" "present (secret (instances ?m ! r))"
    "nonce (instances ?m ! r) = nonce ?c + 1"
    using Cons.prems by simp_all
  note IH = Cons.IH [OF m'(1-4)]
  have shift: "map (\<lambda>i. a + int i) [0..<Suc n] = a # map (\<lambda>i. a + 1 + int i) [0..<n]" for a n
    by (simp add: map_upt_Suc add.assoc del: upt_Suc)
  show ?case
    using IH step m'(5) shift [of "nonce ?c" "length qs"]
    by (simp add: tq Let_def del: upt_Suc)
qed

lemma increasing_through:
  assumes "length ts = length ns" and "sorted_wrt (<) ns"
  shows "sorted_wrt (<) (nonces_through a (zip ts (ns :: int list)))"
proof -
  from assms have "sorted_wrt (\<lambda>p q. snd p < snd q) (zip ts ns)"
    using sorted_wrt_map [of "(<)" snd "zip ts ns"] by simp
  then have "sorted_wrt (\<lambda>p q. snd p < snd q) (filter (\<lambda>p. fst p = a) (zip ts ns))"
    by (rule sorted_wrt_filter)
  then show ?thesis
    by (simp add: nonces_through_def sorted_wrt_map)
qed

lemma strictly_increasing_from: "sorted_wrt (<) (map (\<lambda>i. a + int i) [0..<n])"
  by (simp add: sorted_wrt_map sorted_wrt_iff_nth_less)

text \<open>
  C5, as the claim states it, fails: the constructor sets \<open>self\<close> and starts the new
  counter at the clock. After three requests through an instance constructed at 41
  and the construction of a second instance at 42, the next request through the
  first instance carries the nonce 42 again.
\<close>

theorem nonces_repeat_counterexample:
  "nonces_through 0
     (snd (run_events example_libs no_instances
             [Construct credentials 41, Request 0 failing_request, Request 0 refused_request,
              Request 0 accepted_request, Construct credentials 42, Request 0 accepted_request])) =
     [41, 42, 43, 42] \<and>
   \<not> distinct
     (nonces_through 0
        (snd (run_events example_libs no_instances
                [Construct credentials 41, Request 0 failing_request,
                 Request 0 refused_request, Request 0 accepted_request,
                 Construct credentials 42, Request 0 accepted_request])))"
  by (simp add: no_instances_def construct_def request_through_step constructed_fields present_def
        Let_def nonces_through_def nth_append)

text \<open>
  C5, amended. As long as no further instance is constructed and the instance \<open>self\<close>
  refers to has credentials, the nonces of a run of private requests, through
  whatever instances they are made, are the counter's value at the start and its
  successors, one for each request: the nonces of the requests made through any one
  instance are strictly increasing with no repeats, and every request leaves the
  counter one higher than it found it, whatever the network answers.
\<close>

theorem nonces_strictly_increasing:
  assumes "self_ref m = Some r" and "r < length (instances m)"
    and "present (key (instances m ! r))" and "present (secret (instances m ! r))"
  shows "snd (run_events L m (map (\<lambda>(this, q). Request this q) qs)) =
           zip (map fst qs) (map (\<lambda>i. nonce (instances m ! r) + int i) [0..<length qs]) \<and>
         sorted_wrt (<)
           (nonces_through a (snd (run_events L m (map (\<lambda>(this, q). Request this q) qs)))) \<and>
         distinct
           (nonces_through a (snd (run_events L m (map (\<lambda>(this, q). Request this q) qs)))) \<and>
         self_ref (fst (run_events L m (map (\<lambda>(this, q). Request this q) qs))) = Some r \<and>
         nonce (instances (fst (run_events L m (map (\<lambda>(this, q). Request this q) qs))) ! r) =
           nonce (instances m ! r) + int (length qs)"
proof -
  note run = run_requests [OF assms, of L qs]
  have inc: "sorted_wrt (<)
           (nonces_through a (snd (run_events L m (map (\<lambda>(this, q). Request this q) qs))))"
    using run increasing_through [of "map fst qs" _ a, OF _ strictly_increasing_from]
    by simp
  then have "distinct
           (nonces_through a (snd (run_events L m (map (\<lambda>(this, q). Request this q) qs))))"
    by (simp add: strict_sorted_iff)
  with run inc show ?thesis by simp
qed

theorem nonces_strictly_increasing_witness:
  "self_ref (construct credentials 41 no_instances) = Some 0 \<and>
   present (key (instances (construct credentials 41 no_instances) ! 0)) \<and>
   present (secret (instances (construct credentials 41 no_instances) ! 0)) \<and>
   snd (run_events example_libs (construct credentials 41 no_instances)
          [Request 0 failing_request, Request 0 refused_request, Request 0 accepted_request]) =
     [(0, 41), (0, 42), (0, 43)] \<and>
   nonce (instances (fst (run_events example_libs (construct credentials 41 no_instances)
          [Request 0 failing_request, Request 0 refused_request, Request 0 accepted_request])) ! 0) =
     44"
proof -
  have a: "self_ref (construct credentials 41 no_instances) = Some 0"
    and b: "0 < length (instances (construct credentials 41 no_instances))"
    and c: "present (key (instances (construct credentials 41 no_instances) ! 0))"
    and d: "present (secret (instances (construct credentials 41 no_instances) ! 0))"
    and n: "nonce (instances (construct credentials 41 no_instances) ! 0) = 41"
    by (simp_all add: construct_def no_instances_def constructed_fields present_def)
  have u: "[0..<3] = [0, 1, 2]" by (simp add: upt_rec)
  from nonces_strictly_increasing [OF a b c d, of example_libs
      "[(0, failing_request), (0, refused_request), (0, accepted_request)]" 0] a c d
  show ?thesis by (simp add: n u)
qed

subsection \<open>The signed body\<close>

text \<open>
  C6, as the claim states it, fails for DELETE: the body signed for a DELETE request
  with the arguments \<open>{}\<close> is the empty string, not their JSON encoding.
\<close>

theorem signed_body_counterexample:
  "private_postData ''DELETE'' (JObj []) = JStr [] \<and>
   of_result (JSON_stringify (JObj [])) = JStr ''{}''"
  by (simp add: private_postData_def of_result_def)

text \<open>
  C6, amended. The body in the signed message is the compact JSON encoding of the
  arguments when the method is POST or PUT, and the empty string for every other
  method (GET and DELETE among them); the URI, sent and signed, is the server and the
  path, followed by a question mark and the query string of the arguments when the
  method is GET and the arguments are not empty.
\<close>

theorem signed_body:
  assumes "key self = Some k" and "k \<noteq> []" and "secret self = Some s" and "s \<noteq> []"
    and "u = serverV1 self @ path @
           (if method = ''GET'' \<and> \<not> isEmpty args then ''?'' @ querystring_stringify L args
            else [])"
    and "b = (if method = ''POST'' \<or> method = ''PUT'' then of_result (JSON_stringify args)
              else JStr [])"
  shows "map (\<lambda>opts. (options_uri opts, Authorization (options_headers opts)))
           (sent (makePrivateRequest L self method path args now net)) =
         [(u, Some (k @ '':'' @
                private_signature L self u (private_message method u b (nonce self) now)))]"
  using assms
  by (simp add: makePrivateRequest_sent present_def Let_def string_of_def
        private_uri_def private_postData_def)

theorem signed_body_witness:
  "key example_client = Some ''k'' \<and> ''k'' \<noteq> [] \<and> secret example_client = Some ''s'' \<and> ''s'' \<noteq> [] \<and>
   map (\<lambda>opts. (options_uri opts, Authorization (options_headers opts)))
     (sent (makePrivateRequest example_libs example_client ''POST'' ''/wallets/w1/orders''
              (JObj [(''n'', JNum ''5'')]) 1700 (answer None 201 (JObj [])))) =
   [(''https://h/wallets/w1/orders'',
     Some (''k:'' @ private_signature example_libs example_client ''https://h/wallets/w1/orders''
             (private_message ''POST'' ''https://h/wallets/w1/orders''
                (JStr (''{'' @ CHR 0x22 # ''n'' @ CHR 0x22 # '':5}'')) 41 1700)))]"
  using signed_body [of example_client "''k''" "''s''" _ "''/wallets/w1/orders''" "''POST''"
      "JObj [(''n'', JNum ''5'')]" example_libs _ 1700 "answer None 201 (JObj [])",
      OF _ _ _ _ refl refl]
  by (simp add: example_client_fields of_result_def json_quote_def quote_unit_def
        number_toString_def digits.simps)

subsection \<open>What the caller receives\<close>

text \<open>
  C7, as the claim states it, fails: a response whose body is a JSON array, with
  status 200, is a success and the array is delivered.
\<close>

theorem array_success_counterexample:
  "delivered (getWallets example_libs example_client (JStr ''u'') 1700
                (answer None 200 (JArr [JObj [(''id'', JStr ''w1'')]]))) =
     Callback None (JArr [JObj [(''id'', JStr ''w1'')]])"
  by (simp add: getWallets_def makePrivateRequest_sent example_client_present Let_def
        response_error_def answer_def)

text \<open>
  C7, amended. When a request succeeds, the body delivered is the body received,
  unchanged, and it is a decoded JSON object or array whose \<open>code\<close> and \<open>error\<close>
  properties are not truthy; the status is 200, 201 or 202 and there was no transport
  error. A string, a number, a boolean or \<open>null\<close> is never delivered as a success.
\<close>

theorem success_body:
  assumes "snd (executeRequest L opts net) = Callback None b"
  shows "b = body (net opts) \<and> ((\<exists>kvs. b = JObj kvs) \<or> (\<exists>xs. b = JArr xs)) \<and>
         err (net opts) = None \<and> \<not> truthy (get_prop b ''code'') \<and>
         \<not> truthy (get_prop b ''error'') \<and> statusCode (net opts) \<in> {200, 201, 202}"
proof -
  from assms have b: "b = body (net opts)"
    and ok: "response_error L (requestDesc opts) (net opts) = None"
    by (simp_all add: executeRequest_def Let_def)
  from ok have "err (net opts) = None" "isObject (body (net opts))"
    "\<not> truthy (get_prop (body (net opts)) ''code'')"
    "\<not> truthy (get_prop (body (net opts)) ''error'')"
    "statusCode (net opts) \<in> {200, 201, 202}"
    by (auto simp: response_error_def Let_def split: option.splits if_splits)
  moreover have "(\<exists>kvs. v = JObj kvs) \<or> (\<exists>xs. v = JArr xs)" if "isObject v" for v
    using that by (cases v) simp_all
  ultimately show ?thesis using b by simp
qed

theorem success_body_witness:
  "snd (executeRequest example_libs example_options
          (answer None 201 (JObj [(''id'', JStr ''abc123''), (''status'', JStr ''open'')]))) =
     Callback None (JObj [(''id'', JStr ''abc123''), (''status'', JStr ''open'')]) \<and>
   JObj [(''id'', JStr ''abc123''), (''status'', JStr ''open'')] =
     body (answer None 201 (JObj [(''id'', JStr ''abc123''), (''status'', JStr ''open'')])
             example_options) \<and>
   statusCode (answer None 201 (JObj [(''id'', JStr ''abc123''), (''status'', JStr ''open'')])
                 example_options) \<in> {200, 201, 202}"
proof -
  have h: "snd (executeRequest example_libs example_options
          (answer None 201 (JObj [(''id'', JStr ''abc123''), (''status'', JStr ''open'')]))) =
     Callback None (JObj [(''id'', JStr ''abc123''), (''status'', JStr ''open'')])"
    by (simp add: executeRequest_def response_error_def answer_def)
  from success_body [OF h] h show ?thesis by blast
qed




subsection \<open>addOrder\<close>

text \<open>
  C9. The source documents \<open>null\<close> as the price of an order without a price; with
  that price \<open>addOrder\<close> throws a TypeError out of the call: nothing is sent and the
  callback is never called.
\<close>

theorem addOrder_null_price_throws:
  "addOrder L self walletId side type amount JNull instrument metadata clientOrderIdentifier
     now net = \<lparr> state = self, sent = [], delivered = Thrown TypeError \<rparr>"
  by (simp add: addOrder_def toString_def split: sum.splits)

theorem addOrder_null_price_throws_witness:
  "addOrder example_libs example_client ''w1'' (JStr ''buy'') (JStr ''market'') (JStr ''1'') JNull
     ''XBTUSD'' JUndefined JUndefined 1700 (answer None 201 (JObj [])) =
   \<lparr> state = example_client, sent = [], delivered = Thrown TypeError \<rparr>"
  by (rule addOrder_null_price_throws)

text \<open>
  C10. A call of \<open>addOrder\<close> on an instance with credentials, with an amount and a
  price that have a \<open>toString\<close>, sends exactly one request, and its arguments are the
  side, the type, the currency (the first three characters of the instrument), the
  amount and the price converted to strings (a number to the string \<open>toString\<close>
  prints, a string to itself), and the instrument, followed by the metadata and by
  the client order identifier when they are given (truthy), and by nothing else. Any
  other call of \<open>addOrder\<close> sends nothing.
\<close>

theorem addOrder_arguments:
  "map options_json
     (sent (addOrder L self walletId side type amount price instrument metadata
              clientOrderIdentifier now net)) =
   (if present (key self) \<and> present (secret self) \<and>
       amount \<noteq> JNull \<and> amount \<noteq> JUndefined \<and> price \<noteq> JNull \<and> price \<noteq> JUndefined
    then [JObj ([(''side'', side), (''type'', type),
                 (''currency'', JStr (take 3 instrument)),
                 (''amount'', JStr (ToString amount)),
                 (''price'', JStr (ToString price)),
                 (''instrument'', JStr instrument)] @
                (if truthy metadata then [(''metadata'', metadata)] else []) @
                (if truthy clientOrderIdentifier
                 then [(''clientOrderIdentifier'', clientOrderIdentifier)] else []))]
    else []) \<and>
   ToString (JNum n) = n \<and> ToString (JStr s) = s"
proof -
  have gate: "sent (makePrivateRequest L self m p a now net) = []"
    if "\<not> (present (key self) \<and> present (secret self))" for m p a
    using that by (auto simp: makePrivateRequest_def)
  have one: "map options_json (sent (makePrivateRequest L self m p a now net)) = [a]"
    if "present (key self) \<and> present (secret self)" for m p a
    using that by (simp add: makePrivateRequest_sent Let_def)
  show ?thesis
  proof (cases "present (key self) \<and> present (secret self)")
    case True
    then show ?thesis
      by (simp add: addOrder_def toString_def Let_def one [OF True])
  next
    case False
    then show ?thesis
      by (auto simp: addOrder_def toString_def Let_def gate [OF False])
  qed
qed

theorem addOrder_arguments_witness:
  "present (key example_client) \<and> present (secret example_client) \<and>
   map options_json
     (sent (addOrder example_libs example_client ''w1'' (JStr ''buy'') (JStr ''limit'')
              (JNum ''0.5'') (JStr ''650'') ''XBTUSD'' JUndefined JUndefined 1700
              (answer None 201 (JObj [])))) =
     [JObj [(''side'', JStr ''buy''), (''type'', JStr ''limit''), (''currency'', JStr ''XBT''),
            (''amount'', JStr ''0.5''), (''price'', JStr ''650''),
            (''instrument'', JStr ''XBTUSD'')]] \<and>
   map options_json
     (sent (addOrder example_libs example_client ''w1'' (JStr ''buy'') (JStr ''limit'')
              (JNum ''1e+21'') (JNum ''650'') ''XBTUSD'' (JObj [(''note'', JStr ''x'')])
              (JStr ''c7'') 1700 (answer None 201 (JObj [])))) =
     [JObj [(''side'', JStr ''buy''), (''type'', JStr ''limit''), (''currency'', JStr ''XBT''),
            (''amount'', JStr ''1e+21''), (''price'', JStr ''650''),
            (''instrument'', JStr ''XBTUSD''), (''metadata'', JObj [(''note'', JStr ''x'')]),
            (''clientOrderIdentifier'', JStr ''c7'')]]"
  using
    addOrder_arguments [of example_libs example_client "''w1''" "JStr ''buy''" "JStr ''limit''"
      "JNum ''0.5''" "JStr ''650''" "''XBTUSD''" JUndefined JUndefined 1700
      "answer None 201 (JObj [])"]
    addOrder_arguments [of example_libs example_client "''w1''" "JStr ''buy''" "JStr ''limit''"
      "JNum ''1e+21''" "JNum ''650''" "''XBTUSD''" "JObj [(''note'', JStr ''x'')]"
      "JStr ''c7''" 1700 "answer None 201 (JObj [])"]
  by (simp add: example_client_present)

end
